theory Spec2Isabelle
  imports Complex_Main "HOL-Library.Word" "HOL-Library.Sublist"
begin

section \<open>Go primitives used by the merchant and valve packages\<close>

text \<open>
  Go's \<open>uint64\<close> and \<open>int64\<close> are 64-bit words: \<open>+\<close>, \<open>-\<close> and \<open>*\<close> wrap around,
  \<open>div\<close> on the word is the unsigned truncating division, \<open>unat\<close> reads a \<open>uint64\<close>,
  \<open>sint\<close> reads an \<open>int64\<close>, and \<open>\<le>s\<close> is the signed comparison. A Go \<open>error\<close> is carried
  by its message; a run-time panic is a separate outcome.
\<close>

type_synonym uint64 = "64 word"
type_synonym int64 = "64 word"

datatype failure = Error string | Panic string

text \<open>\<open>fmt.Sprintf("%d", n)\<close> and \<open>strconv.Itoa\<close>: decimal digits, most significant first.\<close>

fun natToDec :: "nat \<Rightarrow> string" where
  "natToDec n =
     (if n < 10 then [char_of (48 + n)]
      else natToDec (n div 10) @ [char_of (48 + n mod 10)])"

declare natToDec.simps [simp del]

definition Itoa :: "int \<Rightarrow> string" where
  "Itoa i = (if i < 0 then CHR ''-'' # natToDec (nat (- i)) else natToDec (nat i))"

definition fmtUint64 :: "uint64 \<Rightarrow> string" where
  "fmtUint64 w = natToDec (unat w)"

definition fmtInt64 :: "int64 \<Rightarrow> string" where
  "fmtInt64 w = Itoa (sint w)"

text \<open>
  \<open>strconv.ParseInt(s, 16, 64)\<close>: an optional sign, then at least one digit; a digit is
  \<open>0-9\<close> or a letter (either case) whose value is below the base; the value must fit an
  \<open>int64\<close>. \<open>None\<close> stands for a non-nil \<open>err\<close> (syntax or range), which is all the
  caller inspects.
\<close>

definition digitVal :: "char \<Rightarrow> nat option" where
  "digitVal c =
     (let n = (of_char c :: nat) in
      if 48 \<le> n \<and> n \<le> 57 then Some (n - 48)
      else if 97 \<le> n \<and> n \<le> 122 then Some (n - 97 + 10)
      else if 65 \<le> n \<and> n \<le> 90 then Some (n - 65 + 10)
      else None)"

fun parseUintHex :: "nat \<Rightarrow> string \<Rightarrow> nat option" where
  "parseUintHex n [] = Some n"
| "parseUintHex n (c # cs) =
     (case digitVal c of
        None \<Rightarrow> None
      | Some d \<Rightarrow> if 16 \<le> d then None else parseUintHex (n * 16 + d) cs)"

definition ParseIntHex :: "string \<Rightarrow> int option" where
  "ParseIntHex s =
     (case s of
        [] \<Rightarrow> None
      | c # cs \<Rightarrow>
          let neg = (c = CHR ''-'');
              body = (if c = CHR ''+'' \<or> c = CHR ''-'' then cs else s)
          in if body = [] then None
             else (case parseUintHex 0 body of
                     None \<Rightarrow> None
                   | Some un \<Rightarrow>
                       if \<not> neg \<and> 2 ^ 63 \<le> un then None
                       else if neg \<and> 2 ^ 63 < un then None
                       else Some (if neg then - int un else int un)))"

text \<open>\<open>strings.Split(s, ":")\<close>: the pieces between the separators, one more than separators.\<close>

fun Split :: "string \<Rightarrow> char \<Rightarrow> string list" where
  "Split [] sep = [[]]"
| "Split (c # cs) sep =
     (if c = sep then [] # Split cs sep
      else case Split cs sep of
             [] \<Rightarrow> [[c]]
           | p # ps \<Rightarrow> (c # p) # ps)"

text \<open>\<open>strings.Replace(s, ":", "", -1)\<close>: every colon dropped.\<close>

definition dropColons :: "string \<Rightarrow> string" where
  "dropColons s = filter (\<lambda>c. c \<noteq> CHR '':'') s"

text \<open>\<open>strings.Contains(s, sub)\<close>.\<close>

fun Contains :: "string \<Rightarrow> string \<Rightarrow> bool" where
  "Contains [] sub = (sub = [])"
| "Contains (c # cs) sub = (prefix sub (c # cs) \<or> Contains cs sub)"

section \<open>Merchant: sessions, tiers and allotments\<close>

record CustomerSession =
  MacAddress :: string
  StartTime :: int64
  Metric :: string
  Allotment :: uint64

text \<open>
  The fields of \<open>config_manager.MintConfig\<close> and \<open>config_manager.Config\<close> that the merchant
  reads; their types are fixed by the \<open>uint64\<close> operands they are combined with.
\<close>

record MintConfig =
  URL :: string
  PricePerStep :: uint64
  MinPurchaseSteps :: uint64
  MinBalance :: uint64
  BalanceTolerancePercent :: uint64
  MinPayoutAmount :: uint64

text \<open>
  \<open>map[string]*CustomerSession\<close>: the map holds pointers, and \<open>AddAllotment\<close> updates the
  session through the pointer and hands the same pointer back. A pointer is an address
  into \<open>sessionHeap\<close>; \<open>nextSession\<close> is the next address \<open>&CustomerSession{...}\<close> allocates.
\<close>

type_synonym addr = nat

record SessionStore =
  customerSessions :: "string \<rightharpoonup> addr"
  sessionHeap :: "addr \<Rightarrow> CustomerSession"
  nextSession :: addr

definition emptyStore :: SessionStore where
  "emptyStore =
     \<lparr>customerSessions = Map.empty,
      sessionHeap = (\<lambda>_. \<lparr>MacAddress = [], StartTime = 0, Metric = [], Allotment = 0\<rparr>),
      nextSession = 0\<rparr>"

text \<open>\<open>GetSession\<close>: the stored pointer, or the not-found error.\<close>

definition GetSession :: "string \<Rightarrow> SessionStore \<Rightarrow> failure + addr" where
  "GetSession macAddress st =
     (case customerSessions st macAddress of
        None \<Rightarrow> Inl (Error (''session not found for MAC address: '' @ macAddress))
      | Some session \<Rightarrow> Inr session)"

text \<open>
  \<open>AddAllotment\<close>; \<open>now\<close> is the reading of \<open>time.Now().Unix()\<close>. The result is the pair
  the Go function returns (the session pointer, \<open>None\<close> for \<open>nil\<close>; the error, \<open>None\<close> for
  \<open>nil\<close>) and the store afterwards.
\<close>

definition AddAllotment ::
  "int64 \<Rightarrow> string \<Rightarrow> string \<Rightarrow> uint64 \<Rightarrow> SessionStore
     \<Rightarrow> (addr option \<times> failure option) \<times> SessionStore" where
  "AddAllotment now macAddress metric amount st =
     (case customerSessions st macAddress of
        None \<Rightarrow>
          let session = nextSession st
          in ((Some session, None),
              st\<lparr>customerSessions := (customerSessions st)(macAddress \<mapsto> session),
                 sessionHeap := (sessionHeap st)
                   (session := \<lparr>MacAddress = macAddress, StartTime = now,
                                Metric = metric, Allotment = amount\<rparr>),
                 nextSession := Suc session\<rparr>)
      | Some session \<Rightarrow>
          let old = sessionHeap st session
          in ((Some session, None),
              st\<lparr>sessionHeap := (sessionHeap st)
                   (session := old\<lparr>Allotment := Allotment old + amount, StartTime := now\<rparr>)\<rparr>))"

text \<open>\<open>determineTier\<close>.\<close>

definition determineTier :: "uint64 \<Rightarrow> string" where
  "determineTier amount =
     (if amount = 0 then ''free''
      else if 10 \<le> amount then ''premium''
      else ''free'')"

text \<open>
  \<open>calculateAllotment\<close> and \<open>calculateAllotmentMs\<close>, over the configuration fields they
  read (\<open>AcceptedMints\<close>, \<open>Metric\<close>, \<open>StepSize\<close>). The loop keeps the first mint whose URL
  matches; Go's integer division panics on a zero divisor.
\<close>

record Config =
  ConfigMetric :: string
  StepSize :: uint64
  AcceptedMints :: "MintConfig list"

fun findMint :: "MintConfig list \<Rightarrow> string \<Rightarrow> MintConfig option" where
  "findMint [] mintURL = None"
| "findMint (mint # mints) mintURL =
     (if URL mint = mintURL then Some mint else findMint mints mintURL)"

definition insufficientPayment :: "uint64 \<Rightarrow> uint64 \<Rightarrow> failure" where
  "insufficientPayment steps minSteps =
     Error (''payment only covers '' @ fmtUint64 steps
            @ '' steps, but minimum purchase is '' @ fmtUint64 minSteps @ '' steps'')"

definition unsupportedMetric :: "string \<Rightarrow> failure" where
  "unsupportedMetric metric = Error (''unsupported metric: '' @ metric)"

definition calculateAllotmentMs :: "Config \<Rightarrow> uint64 \<Rightarrow> MintConfig \<Rightarrow> failure + uint64" where
  "calculateAllotmentMs config steps mintConfig = Inr (steps * StepSize config)"

definition calculateAllotment :: "Config \<Rightarrow> uint64 \<Rightarrow> string \<Rightarrow> failure + uint64" where
  "calculateAllotment config amountSats mintURL =
     (case findMint (AcceptedMints config) mintURL of
        None \<Rightarrow> Inl (Error (''mint configuration not found for URL: '' @ mintURL))
      | Some mintConfig \<Rightarrow>
          if PricePerStep mintConfig = 0 then Inl (Panic ''integer divide by zero'')
          else
            let steps = amountSats div PricePerStep mintConfig
            in if steps < MinPurchaseSteps mintConfig
               then Inl (insufficientPayment steps (MinPurchaseSteps mintConfig))
               else if ConfigMetric config = ''milliseconds''
                    then calculateAllotmentMs config steps mintConfig
                    else Inl (unsupportedMetric (ConfigMetric config)))"

section \<open>Valve: gate entries, timers and bandwidth limits\<close>

text \<open>
  An external command is its argument vector, as \<open>exec.Command\<close> receives it. The
  operating system is a parameter \<open>sys\<close>: given the commands issued so far and the
  command to run, it answers \<open>None\<close> when the command succeeds and \<open>Some msg\<close> (the
  text of \<open>err\<close>) when it fails. Log lines of the valve package are not modelled.
\<close>

type_synonym command = "string list"
type_synonym system = "command list \<Rightarrow> command \<Rightarrow> string option"

text \<open>
  The package state: \<open>openGates\<close> maps a MAC address to its timer pointer (\<open>None\<close> inside
  the entry is a \<open>nil\<close> pointer); \<open>timers\<close> holds the timers that are still pending, each
  with the MAC address its callback closes over and its \<open>time.Duration\<close> (nanoseconds);
  \<open>issued\<close> is the list of external commands run so far.
\<close>

record Gates =
  openGates :: "string \<rightharpoonup> nat option"
  timers :: "nat \<rightharpoonup> string \<times> int64"
  nextTimer :: nat
  issued :: "command list"

definition closedGates :: Gates where
  "closedGates = \<lparr>openGates = Map.empty, timers = Map.empty, nextTimer = 0, issued = []\<rparr>"

definition run :: "system \<Rightarrow> command \<Rightarrow> Gates \<Rightarrow> string option \<times> Gates" where
  "run sys c g = (sys (issued g) c, g\<lparr>issued := issued g @ [c]\<rparr>)"

definition bandwidthLimits :: "string \<rightharpoonup> int" where
  "bandwidthLimits = [''free'' \<mapsto> 2048, ''premium'' \<mapsto> 0, ''staff'' \<mapsto> 0]"

definition getClassID :: "string \<Rightarrow> string" where
  "getClassID macAddress =
     (let parts = Split macAddress CHR '':''
      in if 2 \<le> length parts
         then (case ParseIntHex (last parts) of
                 Some val \<Rightarrow> Itoa (if val < 2 then 2 else val)
               | None \<Rightarrow> ''2'')
         else ''2'')"

definition filterDelCmd :: "string \<Rightarrow> command" where
  "filterDelCmd macAddress =
     [''tc'', ''filter'', ''del'', ''dev'', ''br-lan'', ''protocol'', ''ip'', ''parent'', ''1:0'',
      ''prio'', ''1'', ''u32'', ''match'', ''u16'', ''0x0800'', ''0xFFFF'', ''at'', ''-2'',
      ''match'', ''u32'', ''0x'' @ dropColons macAddress, ''0xFFFFFFFF'', ''at'', ''-12'',
      ''flowid'', ''1:'' @ getClassID macAddress]"

definition classDelCmd :: "string \<Rightarrow> command" where
  "classDelCmd macAddress =
     [''tc'', ''class'', ''del'', ''dev'', ''br-lan'', ''classid'', ''1:'' @ getClassID macAddress]"

definition classAddCmd :: "string \<Rightarrow> int \<Rightarrow> command" where
  "classAddCmd macAddress limit =
     [''tc'', ''class'', ''add'', ''dev'', ''br-lan'', ''parent'', ''1:1'',
      ''classid'', ''1:'' @ getClassID macAddress,
      ''htb'', ''rate'', Itoa limit @ ''kbit'', ''ceil'', Itoa limit @ ''kbit'']"

definition filterAddCmd :: "string \<Rightarrow> command" where
  "filterAddCmd macAddress =
     [''tc'', ''filter'', ''add'', ''dev'', ''br-lan'', ''protocol'', ''ip'', ''parent'', ''1:0'',
      ''prio'', ''1'', ''u32'', ''match'', ''u16'', ''0x0800'', ''0xFFFF'', ''at'', ''-2'',
      ''match'', ''u32'', ''0x'' @ dropColons macAddress, ''0xFFFFFFFF'', ''at'', ''-12'',
      ''flowid'', ''1:'' @ getClassID macAddress]"

definition authCmd :: "string \<Rightarrow> command" where
  "authCmd macAddress = [''ndsctl'', ''auth'', macAddress]"

definition deauthCmd :: "string \<Rightarrow> command" where
  "deauthCmd macAddress = [''ndsctl'', ''deauth'', macAddress]"

text \<open>\<open>removeBandwidthLimit\<close>: both deletions run, their errors are dropped, the result is \<open>nil\<close>.\<close>

definition removeBandwidthLimit :: "system \<Rightarrow> string \<Rightarrow> Gates \<Rightarrow> failure option \<times> Gates" where
  "removeBandwidthLimit sys macAddress g =
     (let (_, g1) = run sys (filterDelCmd macAddress) g;
          (_, g2) = run sys (classDelCmd macAddress) g1
      in (None, g2))"

text \<open>\<open>setBandwidthLimit\<close>: failures of the two \<open>tc\<close> commands are only logged.\<close>

definition setBandwidthLimit ::
  "system \<Rightarrow> string \<Rightarrow> string \<Rightarrow> Gates \<Rightarrow> failure option \<times> Gates" where
  "setBandwidthLimit sys macAddress tier g =
     (case bandwidthLimits tier of
        None \<Rightarrow> (Some (Error (''unknown tier: '' @ tier)), g)
      | Some limit \<Rightarrow>
          if limit = 0 then removeBandwidthLimit sys macAddress g
          else
            let (_, g1) = run sys (classAddCmd macAddress limit) g;
                (_, g2) = run sys (filterAddCmd macAddress) g1
            in (None, g2))"

text \<open>\<open>authorizeMAC\<close>: an error of \<open>setBandwidthLimit\<close> is logged, not returned.\<close>

definition authorizeMAC ::
  "system \<Rightarrow> string \<Rightarrow> string \<Rightarrow> Gates \<Rightarrow> failure option \<times> Gates" where
  "authorizeMAC sys macAddress tier g =
     (case run sys (authCmd macAddress) g of
        (Some err, g1) \<Rightarrow> (Some (Error err), g1)
      | (None, g1) \<Rightarrow>
          let (_, g2) = setBandwidthLimit sys macAddress tier g1
          in (None, g2))"

text \<open>\<open>deauthorizeMAC\<close>.\<close>

definition deauthorizeMAC :: "system \<Rightarrow> string \<Rightarrow> Gates \<Rightarrow> failure option \<times> Gates" where
  "deauthorizeMAC sys macAddress g =
     (case run sys (deauthCmd macAddress) g of
        (Some err, g1) \<Rightarrow> (Some (Error err), g1)
      | (None, g1) \<Rightarrow>
          let (_, g2) = removeBandwidthLimit sys macAddress g1
          in (None, g2))"

text \<open>\<open>existingTimer.Stop()\<close>: the timer is no longer pending.\<close>

definition Stop :: "nat \<Rightarrow> Gates \<Rightarrow> Gates" where
  "Stop t g = g\<lparr>timers := (timers g)(t := None)\<rparr>"

text \<open>
  \<open>time.AfterFunc(duration, func() {...})\<close> followed by \<open>openGates[macAddress] = timer\<close>:
  a fresh pending timer whose callback closes over \<open>macAddress\<close>.
\<close>

definition installTimer :: "string \<Rightarrow> int64 \<Rightarrow> Gates \<Rightarrow> Gates" where
  "installTimer macAddress duration g =
     (let timer = nextTimer g
      in g\<lparr>timers := (timers g)(timer \<mapsto> (macAddress, duration)),
           nextTimer := Suc timer,
           openGates := (openGates g)(macAddress \<mapsto> Some timer)\<rparr>)"

text \<open>
  \<open>OpenGateUntil\<close>; \<open>now\<close> is the reading of \<open>time.Now().Unix()\<close>. The subtraction and
  the multiplication by \<open>time.Second\<close> are \<open>int64\<close> operations and wrap around.
\<close>

definition pastError :: "int64 \<Rightarrow> int64 \<Rightarrow> failure" where
  "pastError untilTimestamp now =
     Error (''timestamp '' @ fmtInt64 untilTimestamp
            @ '' is in the past (current time: '' @ fmtInt64 now @ '')'')"

definition OpenGateUntil ::
  "system \<Rightarrow> int64 \<Rightarrow> string \<Rightarrow> int64 \<Rightarrow> string \<Rightarrow> Gates \<Rightarrow> failure option \<times> Gates" where
  "OpenGateUntil sys now macAddress untilTimestamp tier g =
     (let durationSeconds = untilTimestamp - now
      in if durationSeconds \<le>s 0 then (Some (pastError untilTimestamp now), g)
         else
           let duration = durationSeconds * 1000000000
           in case openGates g macAddress of
                None \<Rightarrow>
                  (case authorizeMAC sys macAddress tier g of
                     (Some (Error err), g1) \<Rightarrow> (Some (Error (''error authorizing MAC: '' @ err)), g1)
                   | (Some (Panic p), g1) \<Rightarrow> (Some (Panic p), g1)
                   | (None, g1) \<Rightarrow> (None, installTimer macAddress duration g1))
              | Some existingTimer \<Rightarrow>
                  let g1 = (case existingTimer of None \<Rightarrow> g | Some t \<Rightarrow> Stop t g)
                  in (None, installTimer macAddress duration g1))"

text \<open>
  The callback of a pending timer \<open>t\<close>: \<open>deauthorizeMAC\<close>, whose error is only logged,
  then \<open>delete(openGates, macAddress)\<close>. A timer that is not pending does not fire.
\<close>

definition fireTimer :: "system \<Rightarrow> nat \<Rightarrow> Gates \<Rightarrow> Gates" where
  "fireTimer sys t g =
     (case timers g t of
        None \<Rightarrow> g
      | Some (macAddress, duration) \<Rightarrow>
          let (_, g1) = deauthorizeMAC sys macAddress (g\<lparr>timers := (timers g)(t := None)\<rparr>)
          in g1\<lparr>openGates := (openGates g1)(macAddress := None)\<rparr>)"

section \<open>Merchant: the purchase pipeline\<close>

text \<open>
  A \<open>nostr.Event\<close>. Notices have kind 21023, sessions kind 1022.
\<close>

record Event =
  ID :: string
  PubKey :: string
  CreatedAt :: int64
  Kind :: int
  Tags :: "string list list"
  Content :: string
  Sig :: string

text \<open>
  The collaborators of the merchant that are not part of these sources, as parameters:
  the identities configuration (\<open>None\<close> for \<open>nil\<close>; \<open>GetOwnedIdentity\<close> answers the private
  key or the text of an error, \<open>GetPublicIdentity\<close> the lightning address or the text of an
  error), \<open>nostr.GetPublicKey\<close>, \<open>Event.Sign\<close> (which computes the public key, the id and the
  signature of the event it is given, or fails), \<open>utils.ValidateMACAddress\<close>,
  \<open>cashu.DecodeToken\<close>, the token's \<open>Mint()\<close> and the wallet's \<open>Receive\<close>. \<open>'tok\<close> is the
  type of decoded tokens.
\<close>

record IdentitiesConfig =
  GetOwnedIdentity :: "string \<Rightarrow> string + string"
  GetPublicIdentity :: "string \<Rightarrow> string + string"

record 'tok Collaborators =
  GetIdentities :: "IdentitiesConfig option"
  GetPublicKey :: "string \<Rightarrow> string + string"
  Sign :: "string \<Rightarrow> Event \<Rightarrow> string + (string \<times> string \<times> string)"
  ValidateMACAddress :: "string \<Rightarrow> bool"
  DecodeToken :: "string \<Rightarrow> string + 'tok"
  Mint :: "'tok \<Rightarrow> string"
  Receive :: "'tok \<Rightarrow> string + uint64"

text \<open>
  The clock readings of one \<open>PurchaseSession\<close> call, in the order the code may take them:
  \<open>time.Now().Unix()\<close> in \<open>AddAllotment\<close>, in the 24-hour fallback and in \<open>OpenGateUntil\<close>,
  and \<open>nostr.Now()\<close> when the reply is built.
\<close>

record Clock =
  nowAddAllotment :: int64
  nowFallback :: int64
  nowOpenGate :: int64
  nostrNow :: int64

fun extractPaymentToken :: "string list list \<Rightarrow> string + string" where
  "extractPaymentToken [] = Inl ''no payment tag found in event''"
| "extractPaymentToken (tag # tags) =
     (if 2 \<le> length tag \<and> tag ! 0 = ''payment'' then Inr (tag ! 1)
      else extractPaymentToken tags)"

fun extractDeviceIdentifier :: "string list list \<Rightarrow> string + string" where
  "extractDeviceIdentifier [] = Inl ''no device-identifier tag found in event''"
| "extractDeviceIdentifier (tag # tags) =
     (if 3 \<le> length tag \<and> tag ! 0 = ''device-identifier'' then Inr (tag ! 2)
      else extractDeviceIdentifier tags)"

text \<open>The event after \<open>Sign\<close> succeeded: public key, id and signature are set.\<close>

definition signed :: "Event \<Rightarrow> string \<times> string \<times> string \<Rightarrow> Event" where
  "signed ev r = (case r of (pk, i, sg) \<Rightarrow> ev\<lparr>PubKey := pk, ID := i, Sig := sg\<rparr>)"

definition CreateNoticeEvent ::
  "'tok Collaborators \<Rightarrow> int64 \<Rightarrow> string \<Rightarrow> string \<Rightarrow> string \<Rightarrow> string \<Rightarrow> string + Event" where
  "CreateNoticeEvent ext now level code message customerPubkey =
     (case GetIdentities ext of
        None \<Rightarrow> Inl ''identities config is nil''
      | Some identities \<Rightarrow>
          (case GetOwnedIdentity identities ''merchant'' of
             Inl err \<Rightarrow> Inl (''merchant identity not found: '' @ err)
           | Inr privateKey \<Rightarrow>
               (case GetPublicKey ext privateKey of
                  Inl err \<Rightarrow> Inl (''failed to get public key: '' @ err)
                | Inr tollgatePubkey \<Rightarrow>
                    let noticeEvent =
                          \<lparr>ID = [], PubKey = tollgatePubkey, CreatedAt = now, Kind = 21023,
                           Tags = [[''level'', level], [''code'', code]]
                                  @ (if customerPubkey \<noteq> [] then [[''p'', customerPubkey]] else []),
                           Content = message, Sig = []\<rparr>
                    in (case Sign ext privateKey noticeEvent of
                          Inl err \<Rightarrow> Inl (''failed to sign notice event: '' @ err)
                        | Inr r \<Rightarrow> Inr (signed noticeEvent r)))))"

definition createSessionEvent ::
  "'tok Collaborators \<Rightarrow> int64 \<Rightarrow> CustomerSession \<Rightarrow> string \<Rightarrow> string + Event" where
  "createSessionEvent ext now session customerPubkey =
     (case GetIdentities ext of
        None \<Rightarrow> Inl ''identities config is nil''
      | Some identities \<Rightarrow>
          (case GetOwnedIdentity identities ''merchant'' of
             Inl err \<Rightarrow> Inl (''merchant identity not found: '' @ err)
           | Inr privateKey \<Rightarrow>
               (case GetPublicKey ext privateKey of
                  Inl err \<Rightarrow> Inl (''failed to get public key: '' @ err)
                | Inr tollgatePubkey \<Rightarrow>
                    let sessionEvent =
                          \<lparr>ID = [], PubKey = tollgatePubkey, CreatedAt = now, Kind = 1022,
                           Tags = [[''p'', customerPubkey],
                                   [''device-identifier'', ''mac'', MacAddress session],
                                   [''allotment'', fmtUint64 (Allotment session)],
                                   [''metric'', Metric session],
                                   [''start-time'', fmtInt64 (StartTime session)]],
                           Content = [], Sig = []\<rparr>
                    in (case Sign ext privateKey sessionEvent of
                          Inl err \<Rightarrow> Inl (''failed to sign session event: '' @ err)
                        | Inr r \<Rightarrow> Inr (signed sessionEvent r)))))"

text \<open>
  The reply of a failed stage: the notice, or, when the notice itself cannot be built,
  \<open>nil\<close> and an error that starts with \<open>stage\<close>.
\<close>

definition noticeReply ::
  "'tok Collaborators \<Rightarrow> int64 \<Rightarrow> string \<Rightarrow> string \<Rightarrow> string \<Rightarrow> string
     \<Rightarrow> failure + Event" where
  "noticeReply ext now stage code message customerPubkey =
     (case CreateNoticeEvent ext now ''error'' code message customerPubkey of
        Inl noticeErr \<Rightarrow> Inl (Error (stage @ '' and failed to create notice: '' @ noticeErr))
      | Inr noticeEvent \<Rightarrow> Inr noticeEvent)"

text \<open>
  The end of the session as \<open>PurchaseSession\<close> computes it (lines 285 to 291); the
  conversion of \<open>session.Allotment/1000\<close> to \<open>int64\<close> keeps the bits.
\<close>

definition endTimestamp :: "Clock \<Rightarrow> CustomerSession \<Rightarrow> int64" where
  "endTimestamp clock session =
     (if Metric session = ''milliseconds''
      then StartTime session + Allotment session div 1000
      else nowFallback clock + 24 * 60 * 60)"

text \<open>
  \<open>PurchaseSession\<close>. The reply is \<open>Inr event\<close> when the Go function returns an event and a
  \<open>nil\<close> error, \<open>Inl (Error msg)\<close> when it returns \<open>nil\<close> and an error, \<open>Inl (Panic msg)\<close>
  when it panics; the session store and the gates are returned as the call leaves them.
  Line 294 of the source reads \<open>determineTier(amount)\<close>: the identifier \<open>amount\<close> is not
  declared in \<open>PurchaseSession\<close> (the redeemed amount is \<open>amountAfterSwap\<close>) nor anywhere
  else in these sources, so it is the parameter \<open>amount\<close> here.
\<close>

definition PurchaseSession ::
  "'tok Collaborators \<Rightarrow> system \<Rightarrow> Clock \<Rightarrow> Config \<Rightarrow> uint64 \<Rightarrow> Event
     \<Rightarrow> SessionStore \<Rightarrow> Gates \<Rightarrow> (failure + Event) \<times> SessionStore \<times> Gates" where
  "PurchaseSession ext sys clock config amount paymentEvent st g =
     (case extractPaymentToken (Tags paymentEvent) of
        Inl err \<Rightarrow>
          (noticeReply ext (nostrNow clock) ''failed to extract payment token''
             ''invalid-payment-token'' (''Failed to extract payment token: '' @ err)
             (PubKey paymentEvent), st, g)
      | Inr paymentToken \<Rightarrow>
     (case extractDeviceIdentifier (Tags paymentEvent) of
        Inl err \<Rightarrow>
          (noticeReply ext (nostrNow clock) ''failed to extract device identifier''
             ''invalid-device-identifier'' (''Failed to extract device identifier: '' @ err)
             (PubKey paymentEvent), st, g)
      | Inr deviceIdentifier \<Rightarrow>
     if \<not> ValidateMACAddress ext deviceIdentifier then
          (noticeReply ext (nostrNow clock) ''invalid MAC address''
             ''invalid-mac-address'' (''Invalid MAC address: '' @ deviceIdentifier)
             (PubKey paymentEvent), st, g)
     else
     (case DecodeToken ext paymentToken of
        Inl err \<Rightarrow>
          (noticeReply ext (nostrNow clock) ''invalid cashu token''
             ''payment-error-invalid-token'' (''Invalid cashu token: '' @ err)
             (PubKey paymentEvent), st, g)
      | Inr paymentCashuToken \<Rightarrow>
     (case Receive ext paymentCashuToken of
        Inl err \<Rightarrow>
          (let errorCode = (if Contains err ''Token already spent''
                            then ''payment-error-token-spent''
                            else ''payment-processing-failed'');
               errorMessage = (if Contains err ''Token already spent''
                               then ''Token has already been spent''
                               else ''Payment processing failed: '' @ err)
           in (noticeReply ext (nostrNow clock) ''payment processing failed''
                 errorCode errorMessage (PubKey paymentEvent), st, g))
      | Inr amountAfterSwap \<Rightarrow>
     (case calculateAllotment config amountAfterSwap (Mint ext paymentCashuToken) of
        Inl (Panic p) \<Rightarrow> (Inl (Panic p), st, g)
      | Inl (Error err) \<Rightarrow>
          (noticeReply ext (nostrNow clock) ''failed to calculate allotment''
             ''allotment-calculation-failed'' (''Failed to calculate allotment: '' @ err)
             (PubKey paymentEvent), st, g)
      | Inr allotment \<Rightarrow>
     (let macAddress = deviceIdentifier;
          metric = ''milliseconds''
      in case AddAllotment (nowAddAllotment clock) macAddress metric allotment st of
        ((_, Some (Panic p)), st1) \<Rightarrow> (Inl (Panic p), st1, g)
      | ((_, Some (Error err)), st1) \<Rightarrow>
          (noticeReply ext (nostrNow clock) ''failed to manage session''
             ''session-management-failed'' (''Failed to manage session: '' @ err)
             (PubKey paymentEvent), st1, g)
      | ((None, None), st1) \<Rightarrow> (Inl (Panic ''nil pointer dereference''), st1, g)
      | ((Some sessionPtr, None), st1) \<Rightarrow>
     (let session = sessionHeap st1 sessionPtr;
          tier = determineTier amount
      in case OpenGateUntil sys (nowOpenGate clock) macAddress
                (endTimestamp clock session) tier g of
        (Some (Panic p), g1) \<Rightarrow> (Inl (Panic p), st1, g1)
      | (Some (Error err), g1) \<Rightarrow>
          (noticeReply ext (nostrNow clock) ''failed to open gate for session''
             ''gate-opening-failed'' (''Failed to open gate for session: '' @ err)
             (PubKey paymentEvent), st1, g1)
      | (None, g1) \<Rightarrow>
          (case createSessionEvent ext (nostrNow clock) session (PubKey paymentEvent) of
             Inl err \<Rightarrow> (Inl (Error (''failed to create session event: '' @ err)), st1, g1)
           | Inr sessionEvent \<Rightarrow> (Inr sessionEvent, st1, g1)))))))))"

section \<open>Merchant: the payout tick\<close>

text \<open>
  What one tick does, in order: the lines it logs and the calls of the wallet's
  \<open>MeltToLightning(mintURL, amount, maxCost, lightningAddress)\<close>.
\<close>

datatype payoutEvent = Log string | Melt string uint64 uint64 string

record 'f ProfitShareConfig =
  Factor :: 'f
  Identity :: string

text \<open>
  The surroundings of a tick: the wallet's balance per mint, the identities configuration,
  the outcome of a melt (given what the tick did so far; \<open>None\<close> is success), the
  configured profit shares, and \<open>roundShare a f\<close> for
  \<open>uint64(math.Round(float64(a) * f))\<close>. The latter is \<open>float64\<close> arithmetic, which this
  embedding does not compute: it is a parameter, and \<open>'f\<close> is the type of factors.
\<close>

record 'f PayoutEnv =
  GetBalanceByMint :: "string \<Rightarrow> uint64"
  payoutIdentities :: "IdentitiesConfig option"
  MeltToLightning :: "payoutEvent list \<Rightarrow> string \<Rightarrow> uint64 \<Rightarrow> uint64 \<Rightarrow> string \<Rightarrow> string option"
  ProfitShare :: "'f ProfitShareConfig list"
  roundShare :: "uint64 \<Rightarrow> 'f \<Rightarrow> uint64"

definition PayoutShare ::
  "'f PayoutEnv \<Rightarrow> MintConfig \<Rightarrow> uint64 \<Rightarrow> string \<Rightarrow> payoutEvent list \<Rightarrow> payoutEvent list" where
  "PayoutShare env mintConfig aimedPaymentAmount lightningAddress tr =
     (let tolerancePaymentAmount =
            aimedPaymentAmount + (aimedPaymentAmount * BalanceTolerancePercent mintConfig div 100);
          tr1 = tr @ [Log (''Processing payout for mint '' @ URL mintConfig @ '': aiming for ''
                           @ fmtUint64 aimedPaymentAmount @ '' sats with ''
                           @ fmtUint64 tolerancePaymentAmount @ '' sats tolerance'')];
          maxCost = aimedPaymentAmount + tolerancePaymentAmount;
          meltErr = MeltToLightning env tr1 (URL mintConfig) aimedPaymentAmount maxCost lightningAddress;
          tr2 = tr1 @ [Melt (URL mintConfig) aimedPaymentAmount maxCost lightningAddress]
      in case meltErr of
           Some err \<Rightarrow>
             tr2 @ [Log (''Error during payout for mint '' @ URL mintConfig
                         @ ''. Error melting to lightning. Skipping... '' @ err)]
         | None \<Rightarrow> tr2)"

text \<open>The loop over \<open>m.config.ProfitShare\<close>.\<close>

fun payoutShares ::
  "'f PayoutEnv \<Rightarrow> IdentitiesConfig \<Rightarrow> MintConfig \<Rightarrow> uint64 \<Rightarrow> 'f ProfitShareConfig list
     \<Rightarrow> payoutEvent list \<Rightarrow> payoutEvent list" where
  "payoutShares env identities mintConfig aimedPaymentAmount [] tr = tr"
| "payoutShares env identities mintConfig aimedPaymentAmount (profitShare # rest) tr =
     (let aimedAmount = roundShare env aimedPaymentAmount (Factor profitShare)
      in case GetPublicIdentity identities (Identity profitShare) of
           Inl err \<Rightarrow>
             payoutShares env identities mintConfig aimedPaymentAmount rest
               (tr @ [Log (''Warning: Could not find public identity for profit share: '' @ err)])
         | Inr lightningAddress \<Rightarrow>
             payoutShares env identities mintConfig aimedPaymentAmount rest
               (PayoutShare env mintConfig aimedAmount lightningAddress tr))"

definition processPayout :: "'f PayoutEnv \<Rightarrow> MintConfig \<Rightarrow> payoutEvent list" where
  "processPayout env mintConfig =
     (let balance = GetBalanceByMint env (URL mintConfig)
      in if balance < MinPayoutAmount mintConfig
         then [Log (''Skipping payout '' @ URL mintConfig @ '', Balance '' @ fmtUint64 balance
                    @ '' does not meet threshold of '' @ fmtUint64 (MinPayoutAmount mintConfig))]
         else
           let aimedPaymentAmount = balance - MinBalance mintConfig
           in case payoutIdentities env of
                None \<Rightarrow> []
              | Some identities \<Rightarrow>
                  payoutShares env identities mintConfig aimedPaymentAmount (ProfitShare env) []
                  @ [Log (''Payout completed for mint '' @ URL mintConfig)])"

text \<open>
  One instance of \<open>roundShare\<close>, for factors given as rationals: the product and the
  rounding (half away from zero on the non-negative products that occur) computed
  exactly. It agrees with the \<open>float64\<close> computation wherever the conversion, the product
  and the result are exact in \<open>float64\<close>, as for amount 100 and factor 1/2.
\<close>

definition exactShare :: "uint64 \<Rightarrow> rat \<Rightarrow> uint64" where
  "exactShare a f = word_of_int (round (of_nat (unat a) * f))"

section \<open>Notions used to state the properties\<close>

text \<open>
  The bandwidth commands \<open>setBandwidthLimit\<close> issues for a tier: none for a tier that is
  not in the table, the two deletions for a ceiling of 0, the class and the filter
  otherwise.
\<close>

definition bandwidthCmds :: "string \<Rightarrow> string \<Rightarrow> command list" where
  "bandwidthCmds macAddress tier =
     (case bandwidthLimits tier of
        None \<Rightarrow> []
      | Some limit \<Rightarrow>
          if limit = 0 then [filterDelCmd macAddress, classDelCmd macAddress]
          else [classAddCmd macAddress limit, filterAddCmd macAddress])"

text \<open>
  A notice for \<open>code\<close>: kind 21023, the severity \<open>error\<close>, the code, the payer's key in
  a \<open>p\<close> tag when the key is not empty, and a message.
\<close>

definition carriesNotice :: "Event \<Rightarrow> string \<Rightarrow> string \<Rightarrow> bool" where
  "carriesNotice n code payer \<longleftrightarrow>
     Kind n = 21023
     \<and> Tags n = [[''level'', ''error''], [''code'', code]]
                 @ (if payer \<noteq> [] then [[''p'', payer]] else [])
     \<and> Content n \<noteq> []"

text \<open>
  The event carries what \<open>Sign\<close> computes for it under the merchant's private key.
\<close>

definition signedByMerchant :: "'tok Collaborators \<Rightarrow> Event \<Rightarrow> bool" where
  "signedByMerchant ext n =
     (case GetIdentities ext of
        None \<Rightarrow> False
      | Some identities \<Rightarrow>
          (case GetOwnedIdentity identities ''merchant'' of
             Inl err \<Rightarrow> False
           | Inr privateKey \<Rightarrow>
               (case GetPublicKey ext privateKey of
                  Inl err \<Rightarrow> False
                | Inr tollgatePubkey \<Rightarrow>
                    Sign ext privateKey (n\<lparr>ID := [], PubKey := tollgatePubkey, Sig := []\<rparr>)
                      = Inr (PubKey n, ID n, Sig n))))"

text \<open>
  The reply of a failed stage with code \<open>code\<close>: a signed notice for that code, or, when
  the notice cannot be created, no event and an error.
\<close>

definition failureReply ::
  "'tok Collaborators \<Rightarrow> Clock \<Rightarrow> Event \<Rightarrow> string \<Rightarrow> failure + Event \<Rightarrow> bool" where
  "failureReply ext clock paymentEvent code reply \<longleftrightarrow>
     (\<exists>n. reply = Inr n \<and> carriesNotice n code (PubKey paymentEvent) \<and> signedByMerchant ext n)
     \<or> (\<exists>m message err. reply = Inl (Error m)
           \<and> CreateNoticeEvent ext (nostrNow clock) ''error'' code message (PubKey paymentEvent)
               = Inl err)"

text \<open>The melts and the warnings among what a payout tick did.\<close>

fun isMelt :: "payoutEvent \<Rightarrow> bool" where
  "isMelt (Melt mintURL amount maxCost lightningAddress) = True"
| "isMelt (Log line) = False"

fun isWarning :: "payoutEvent \<Rightarrow> bool" where
  "isWarning (Log line) = prefix ''Warning: '' line"
| "isWarning (Melt mintURL amount maxCost lightningAddress) = False"

section \<open>Inputs used in the examples\<close>

definition mintA :: MintConfig where
  "mintA = \<lparr>URL = ''https://mint.example'', PricePerStep = 10, MinPurchaseSteps = 1,
            MinBalance = 0, BalanceTolerancePercent = 10, MinPayoutAmount = 0\<rparr>"

definition configA :: Config where
  "configA = \<lparr>ConfigMetric = ''milliseconds'', StepSize = 3600000, AcceptedMints = [mintA]\<rparr>"

text \<open>The same mint at 1 sat per step.\<close>

definition mintB :: MintConfig where
  "mintB = \<lparr>URL = ''https://mint.example'', PricePerStep = 1, MinPurchaseSteps = 1,
            MinBalance = 0, BalanceTolerancePercent = 10, MinPayoutAmount = 0\<rparr>"

definition configB :: Config where
  "configB = \<lparr>ConfigMetric = ''milliseconds'', StepSize = 3600000, AcceptedMints = [mintB]\<rparr>"

definition deviceA :: string where
  "deviceA = ''aa:bb:cc:dd:ee:ff''"

text \<open>
  An operating system on which every command succeeds; one on which \<open>ndsctl deauth\<close>
  fails for the device; one on which \<open>ndsctl auth\<close> fails for it.
\<close>

definition sysOk :: system where
  "sysOk = (\<lambda>h c. None)"

definition sysNoDeauth :: system where
  "sysNoDeauth = (\<lambda>h c. if c = deauthCmd deviceA then Some ''exit status 1'' else None)"

definition sysNoAuth :: system where
  "sysNoAuth = (\<lambda>h c. if c = authCmd deviceA then Some ''exit status 1'' else None)"

text \<open>The gates after the device was authorized at time 1000 until 4600 on the free tier.\<close>

definition gatesA :: Gates where
  "gatesA = snd (OpenGateUntil sysOk 1000 deviceA 4600 ''free'' closedGates)"

text \<open>
  Collaborators that accept the device and every token, redeem 10 sats for each token
  of the configured mint, and sign; the same with a signer that fails.
\<close>

definition identitiesA :: IdentitiesConfig where
  "identitiesA =
     \<lparr>GetOwnedIdentity = (\<lambda>name. if name = ''merchant'' then Inr ''merchant-key''
                                  else Inl ''owned identity not found''),
      GetPublicIdentity = (\<lambda>name. if name = ''owner'' then Inr ''owner@ln.example''
                                   else Inl ''public identity not found'')\<rparr>"

definition extA :: "string Collaborators" where
  "extA =
     \<lparr>GetIdentities = Some identitiesA,
      GetPublicKey = (\<lambda>privateKey. Inr ''merchant-pubkey''),
      Sign = (\<lambda>privateKey ev. Inr (''merchant-pubkey'', ''event-id'', ''event-sig'')),
      ValidateMACAddress = (\<lambda>mac. mac = deviceA),
      DecodeToken = (\<lambda>token. Inr token),
      Mint = (\<lambda>token. ''https://mint.example''),
      Receive = (\<lambda>token. Inr 10)\<rparr>"

text \<open>The same collaborators with a wallet that redeems \<open>n\<close> sats for each token.\<close>

definition extPays :: "uint64 \<Rightarrow> string Collaborators" where
  "extPays n = extA\<lparr>Receive := (\<lambda>token. Inr n)\<rparr>"

definition extNoSign :: "string Collaborators" where
  "extNoSign = extA\<lparr>Sign := (\<lambda>privateKey ev. Inl ''signing failed'')\<rparr>"

definition clockA :: Clock where
  "clockA = \<lparr>nowAddAllotment = 1000, nowFallback = 1000, nowOpenGate = 1000, nostrNow = 1000\<rparr>"

definition paymentA :: Event where
  "paymentA =
     \<lparr>ID = ''payment-id'', PubKey = ''payer-pubkey'', CreatedAt = 1000, Kind = 21000,
      Tags = [[''payment'', ''cashuAtoken''], [''device-identifier'', ''mac'', deviceA]],
      Content = [], Sig = ''payment-sig''\<rparr>"

definition emptyPayment :: Event where
  "emptyPayment = paymentA\<lparr>Tags := []\<rparr>"

definition storeA :: SessionStore where
  "storeA = snd (AddAllotment 1000 deviceA ''milliseconds'' 3600000 emptyStore)"

text \<open>
  A payout tick: balance 100, two profit shares of one half each, the first for an
  identity that does not resolve.
\<close>

definition payoutEnvA :: "rat PayoutEnv" where
  "payoutEnvA =
     \<lparr>GetBalanceByMint = (\<lambda>mintURL. 100),
      payoutIdentities = Some identitiesA,
      MeltToLightning = (\<lambda>tr mintURL amount maxCost lightningAddress. None),
      ProfitShare = [\<lparr>Factor = 1 / 2, Identity = ''nobody''\<rparr>,
                     \<lparr>Factor = 1 / 2, Identity = ''owner''\<rparr>],
      roundShare = exactShare\<rparr>"

section \<open>Auxiliary facts\<close>

lemma removeBandwidthLimit_eq:
  "removeBandwidthLimit sys macAddress g
     = (None, g\<lparr>issued := issued g @ [filterDelCmd macAddress, classDelCmd macAddress]\<rparr>)"
  by (simp add: removeBandwidthLimit_def run_def)

lemma setBandwidthLimit_eq:
  "setBandwidthLimit sys macAddress tier g =
     (case bandwidthLimits tier of
        None \<Rightarrow> (Some (Error (''unknown tier: '' @ tier)), g)
      | Some limit \<Rightarrow>
          (None, g\<lparr>issued := issued g @
             (if limit = 0 then [filterDelCmd macAddress, classDelCmd macAddress]
              else [classAddCmd macAddress limit, filterAddCmd macAddress])\<rparr>))"
  by (simp add: setBandwidthLimit_def removeBandwidthLimit_eq run_def split: option.splits)

lemma authorizeMAC_eq:
  "authorizeMAC sys macAddress tier g =
     (case sys (issued g) (authCmd macAddress) of
        Some err \<Rightarrow> (Some (Error err), g\<lparr>issued := issued g @ [authCmd macAddress]\<rparr>)
      | None \<Rightarrow>
          (None, g\<lparr>issued := issued g @ authCmd macAddress # bandwidthCmds macAddress tier\<rparr>))"
  by (simp add: authorizeMAC_def setBandwidthLimit_eq run_def bandwidthCmds_def
        split: option.splits)

lemma deauthorizeMAC_eq:
  "deauthorizeMAC sys macAddress g =
     (case sys (issued g) (deauthCmd macAddress) of
        Some err \<Rightarrow> (Some (Error err), g\<lparr>issued := issued g @ [deauthCmd macAddress]\<rparr>)
      | None \<Rightarrow>
          (None, g\<lparr>issued := issued g
             @ [deauthCmd macAddress, filterDelCmd macAddress, classDelCmd macAddress]\<rparr>))"
  by (simp add: deauthorizeMAC_def removeBandwidthLimit_eq run_def split: option.splits)

lemma OpenGateUntil_error_frame:
  assumes "OpenGateUntil sys now macAddress untilTimestamp tier g = (Some e, g1)"
  shows "openGates g1 = openGates g \<and> timers g1 = timers g \<and> nextTimer g1 = nextTimer g"
  using assms
  by (auto simp: OpenGateUntil_def Let_def authorizeMAC_eq installTimer_def
        split: if_splits option.splits)

lemma OpenGateUntil_fresh:
  assumes "\<not> untilTimestamp - now \<le>s 0"
  shows "OpenGateUntil sysOk now macAddress untilTimestamp tier closedGates
           = (None,
              \<lparr>openGates = [macAddress \<mapsto> Some 0],
               timers = [0 \<mapsto> (macAddress, (untilTimestamp - now) * 1000000000)],
               nextTimer = 1,
               issued = authCmd macAddress # bandwidthCmds macAddress tier\<rparr>)"
  using assms
  by (simp add: OpenGateUntil_def closedGates_def sysOk_def authorizeMAC_eq installTimer_def)

lemma gatesA_eq:
  "gatesA = \<lparr>openGates = [deviceA \<mapsto> Some 0], timers = [0 \<mapsto> (deviceA, 3600000000000)],
             nextTimer = 1,
             issued = [authCmd deviceA, classAddCmd deviceA 2048, filterAddCmd deviceA]\<rparr>"
  by (simp add: gatesA_def OpenGateUntil_def closedGates_def sysOk_def authorizeMAC_eq
        bandwidthCmds_def bandwidthLimits_def installTimer_def word_sle_eq)

lemma AddAllotment_result:
  "\<exists>session st1. AddAllotment now macAddress metric amount st = ((Some session, None), st1)"
  by (cases "customerSessions st macAddress") (simp_all add: AddAllotment_def Let_def)

lemma CreateNoticeEvent_Inr:
  assumes "CreateNoticeEvent ext now level code message payer = Inr n"
  shows "Kind n = 21023"
    and "Tags n = [[''level'', level], [''code'', code]]
                  @ (if payer \<noteq> [] then [[''p'', payer]] else [])"
    and "Content n = message"
    and "signedByMerchant ext n"
  using assms
  by (auto simp: CreateNoticeEvent_def signedByMerchant_def signed_def Let_def
        split: option.splits sum.splits prod.splits if_splits)

lemma noticeReply_failureReply:
  assumes "message \<noteq> []"
  shows "failureReply ext clock paymentEvent code
           (noticeReply ext (nostrNow clock) stage code message (PubKey paymentEvent))"
proof (cases "CreateNoticeEvent ext (nostrNow clock) ''error'' code message (PubKey paymentEvent)")
  case (Inl err)
  then show ?thesis
    by (auto simp: failureReply_def noticeReply_def)
next
  case (Inr n)
  from CreateNoticeEvent_Inr [OF Inr] assms have "carriesNotice n code (PubKey paymentEvent)"
    and "signedByMerchant ext n"
    by (simp_all add: carriesNotice_def)
  with Inr show ?thesis
    by (simp add: failureReply_def noticeReply_def)
qed

lemma noticeReply_Kind:
  "noticeReply ext now stage code message payer = Inr e \<Longrightarrow> Kind e = 21023"
  by (auto simp: noticeReply_def dest: CreateNoticeEvent_Inr(1) split: sum.splits)

lemma PayoutShare_melts:
  "filter isMelt (PayoutShare env mintConfig a lightningAddress tr)
     = filter isMelt tr
       @ [Melt (URL mintConfig) a
            (a + (a + a * BalanceTolerancePercent mintConfig div 100)) lightningAddress]"
  by (simp add: PayoutShare_def Let_def split: option.splits)

lemma PayoutShare_warnings:
  "filter isWarning (PayoutShare env mintConfig a lightningAddress tr) = filter isWarning tr"
  by (simp add: PayoutShare_def Let_def split: option.splits)

lemma payoutShares_melts:
  "filter isMelt (payoutShares env identities mintConfig aimed shares tr)
     = filter isMelt tr
       @ concat (map (\<lambda>profitShare.
           case GetPublicIdentity identities (Identity profitShare) of
             Inl err \<Rightarrow> []
           | Inr lightningAddress \<Rightarrow>
               [Melt (URL mintConfig) (roundShare env aimed (Factor profitShare))
                  (roundShare env aimed (Factor profitShare)
                   + (roundShare env aimed (Factor profitShare)
                      + roundShare env aimed (Factor profitShare)
                        * BalanceTolerancePercent mintConfig div 100))
                  lightningAddress]) shares)"
proof (induction shares arbitrary: tr)
  case Nil
  show ?case by simp
next
  case (Cons profitShare rest)
  show ?case
    by (cases "GetPublicIdentity identities (Identity profitShare)")
       (simp_all add: Cons.IH PayoutShare_melts Let_def)
qed

lemma payoutShares_warnings:
  "filter isWarning (payoutShares env identities mintConfig aimed shares tr)
     = filter isWarning tr
       @ concat (map (\<lambda>profitShare.
           case GetPublicIdentity identities (Identity profitShare) of
             Inl err \<Rightarrow>
               [Log (''Warning: Could not find public identity for profit share: '' @ err)]
           | Inr lightningAddress \<Rightarrow> []) shares)"
proof (induction shares arbitrary: tr)
  case Nil
  show ?case by simp
next
  case (Cons profitShare rest)
  show ?case
    by (cases "GetPublicIdentity identities (Identity profitShare)")
       (simp_all add: Cons.IH PayoutShare_warnings Let_def)
qed

lemma exactShare_half: "exactShare 100 (1 / 2) = 50"
  by (simp add: exactShare_def)

lemma createSessionEvent_Kind:
  "createSessionEvent ext now session payer = Inr e \<Longrightarrow> Kind e = 1022"
  by (auto simp: createSessionEvent_def signed_def Let_def
        split: option.splits sum.splits prod.splits)

lemma storeA_eq:
  "AddAllotment 1000 deviceA ''milliseconds'' 3600000 emptyStore = ((Some 0, None), storeA)"
  by (simp add: storeA_def AddAllotment_def emptyStore_def)

lemma storeA_session:
  "sessionHeap storeA 0
     = \<lparr>MacAddress = deviceA, StartTime = 1000, Metric = ''milliseconds'', Allotment = 3600000\<rparr>"
  by (simp add: storeA_def AddAllotment_def emptyStore_def)

lemma allotmentA: "calculateAllotment configA 10 ''https://mint.example'' = Inr 3600000"
  by (simp add: calculateAllotment_def calculateAllotmentMs_def configA_def mintA_def)

lemma endA: "endTimestamp clock (sessionHeap storeA 0) = 4600"
  by (simp add: storeA_session endTimestamp_def)

lemma gateA_fails:
  "OpenGateUntil sysNoAuth 1000 deviceA 4600 tier closedGates
     = (Some (Error ''error authorizing MAC: exit status 1''),
        closedGates\<lparr>issued := [authCmd deviceA]\<rparr>)"
  by (simp add: OpenGateUntil_def closedGates_def sysNoAuth_def authorizeMAC_eq word_sle_eq)

section \<open>Tier classification\<close>

text \<open>
  C9. \<open>determineTier\<close> is a function of the amount alone, defined for every \<open>uint64\<close>
  amount and with no error result: amount 0 is the lowest tier (\<open>free\<close>), every amount
  from the threshold 10 on is \<open>premium\<close>, every amount strictly between 0 and 10 is
  \<open>free\<close>; in particular 0 and 9 are \<open>free\<close> and 10 is \<open>premium\<close>.
\<close>

theorem determineTier_total:
  "determineTier 0 = ''free''
   \<and> (10 \<le> amount \<longrightarrow> determineTier amount = ''premium'')
   \<and> (0 < amount \<and> amount < 10 \<longrightarrow> determineTier amount = ''free'')
   \<and> determineTier 9 = ''free'' \<and> determineTier 10 = ''premium''"
  by (auto simp: determineTier_def)

theorem determineTier_total_witness:
  "(10::uint64) \<le> 12 \<and> determineTier 12 = ''premium''
   \<and> (0::uint64) < 5 \<and> (5::uint64) < 10 \<and> determineTier 5 = ''free''"
  using determineTier_total [of 12] determineTier_total [of 5] by simp

section \<open>The session store\<close>

text \<open>
  C2. When no session exists for the device, \<open>AddAllotment\<close> stores a new session with
  start time \<open>now\<close> and allotment \<open>amount\<close>. When one exists, the same session object
  stays in the map, its allotment becomes the old allotment plus \<open>amount\<close> (\<open>uint64\<close>
  addition) and its start time becomes \<open>now\<close>; the old start time plays no part, so
  nothing is subtracted for the time already elapsed.
\<close>

theorem AddAllotment_creates_or_extends:
  "(customerSessions st macAddress = None \<longrightarrow>
      (\<exists>session. customerSessions (snd (AddAllotment now macAddress metric amount st)) macAddress
                    = Some session
         \<and> sessionHeap (snd (AddAllotment now macAddress metric amount st)) session
             = \<lparr>MacAddress = macAddress, StartTime = now, Metric = metric, Allotment = amount\<rparr>))
   \<and> (customerSessions st macAddress = Some session \<longrightarrow>
        customerSessions (snd (AddAllotment now macAddress metric amount st)) macAddress
          = Some session
        \<and> sessionHeap (snd (AddAllotment now macAddress metric amount st)) session
            = (sessionHeap st session)
                \<lparr>Allotment := Allotment (sessionHeap st session) + amount, StartTime := now\<rparr>)"
  by (simp add: AddAllotment_def Let_def)

text \<open>
  The example of the specification: 100 milliseconds on the empty store at time 1000,
  then 50 more at time 2000, leave allotment 150 and start time 2000.
\<close>

theorem AddAllotment_creates_or_extends_witness:
  "customerSessions emptyStore deviceA = None
   \<and> customerSessions (snd (AddAllotment 1000 deviceA ''milliseconds'' 100 emptyStore)) deviceA
       = Some 0
   \<and> sessionHeap (snd (AddAllotment 1000 deviceA ''milliseconds'' 100 emptyStore)) 0
       = \<lparr>MacAddress = deviceA, StartTime = 1000, Metric = ''milliseconds'', Allotment = 100\<rparr>
   \<and> sessionHeap (snd (AddAllotment 2000 deviceA ''milliseconds'' 50
         (snd (AddAllotment 1000 deviceA ''milliseconds'' 100 emptyStore)))) 0
       = \<lparr>MacAddress = deviceA, StartTime = 2000, Metric = ''milliseconds'', Allotment = 150\<rparr>"
  using AddAllotment_creates_or_extends
          [of emptyStore deviceA 1000 "''milliseconds''" 100 0]
        AddAllotment_creates_or_extends
          [of "snd (AddAllotment 1000 deviceA ''milliseconds'' 100 emptyStore)" deviceA
              2000 "''milliseconds''" 50 0]
  by (simp add: AddAllotment_def emptyStore_def Let_def)

text \<open>
  C10. \<open>AddAllotment\<close> has no failure path: for every MAC address, metric and amount,
  and every store, it returns a non-nil session pointer and a nil error, and the pointer
  it returns is the one stored in the map for that MAC address.
\<close>

theorem AddAllotment_cannot_fail:
  "\<exists>session. fst (AddAllotment now macAddress metric amount st) = (Some session, None)
     \<and> customerSessions (snd (AddAllotment now macAddress metric amount st)) macAddress
         = Some session"
  by (cases "customerSessions st macAddress") (simp_all add: AddAllotment_def Let_def)

section \<open>The allotment of a payment\<close>

text \<open>
  C3. For a mint that is configured with a non-zero price per step,
  \<open>steps = amountSats / PricePerStep\<close> is the truncating division; the computation
  fails with the insufficient-payment error exactly when \<open>steps < MinPurchaseSteps\<close>;
  otherwise, for the metric \<open>milliseconds\<close> the allotment is \<open>steps * StepSize\<close>
  (the \<open>uint64\<close> product), and for every other metric it fails with the
  unsupported-metric error.
\<close>

theorem calculateAllotment_steps:
  assumes "findMint (AcceptedMints config) mintURL = Some mintConfig"
    and "PricePerStep mintConfig \<noteq> 0"
  shows "unat (amountSats div PricePerStep mintConfig)
           = unat amountSats div unat (PricePerStep mintConfig)
    \<and> ((calculateAllotment config amountSats mintURL
           = Inl (insufficientPayment (amountSats div PricePerStep mintConfig)
                    (MinPurchaseSteps mintConfig)))
         = (amountSats div PricePerStep mintConfig < MinPurchaseSteps mintConfig))
    \<and> (if amountSats div PricePerStep mintConfig < MinPurchaseSteps mintConfig
        then calculateAllotment config amountSats mintURL
               = Inl (insufficientPayment (amountSats div PricePerStep mintConfig)
                        (MinPurchaseSteps mintConfig))
        else if ConfigMetric config = ''milliseconds''
        then calculateAllotment config amountSats mintURL
               = Inr (amountSats div PricePerStep mintConfig * StepSize config)
        else calculateAllotment config amountSats mintURL
               = Inl (unsupportedMetric (ConfigMetric config)))"
  using assms
  by (auto simp: calculateAllotment_def calculateAllotmentMs_def insufficientPayment_def
        unsupportedMetric_def Let_def unat_div)

text \<open>
  The examples of the specification: 25 sats at 10 sats per step of 3600000 ms give
  7200000 ms; 5 sats buy 0 steps, below the minimum of 1.
\<close>

theorem calculateAllotment_steps_witness:
  "findMint (AcceptedMints configA) ''https://mint.example'' = Some mintA
   \<and> PricePerStep mintA \<noteq> 0
   \<and> calculateAllotment configA 25 ''https://mint.example'' = Inr 7200000
   \<and> calculateAllotment configA 5 ''https://mint.example'' = Inl (insufficientPayment 0 1)"
proof -
  have found: "findMint (AcceptedMints configA) ''https://mint.example'' = Some mintA"
    by (simp add: configA_def mintA_def)
  have price: "PricePerStep mintA \<noteq> 0"
    by (simp add: mintA_def)
  show ?thesis
    using found price
      calculateAllotment_steps [OF found price, of 25]
      calculateAllotment_steps [OF found price, of 5]
    by (simp add: configA_def mintA_def)
qed

section \<open>The gate controller\<close>

text \<open>
  The commands of a successful \<open>OpenGateUntil\<close>. When the device had no gate entry, it
  issues \<open>ndsctl auth\<close> followed by the bandwidth commands of the tier: the filter and
  class deletions when the tier's ceiling is 0, the class with class identifier
  \<open>1:getClassID(mac)\<close> and the matching filter when the ceiling is positive, and nothing
  for a tier that is not in the table. When the device already has an entry, it issues
  no command.
\<close>

lemma OpenGateUntil_bandwidth_commands:
  assumes "OpenGateUntil sys now macAddress untilTimestamp tier g = (None, g')"
  shows "issued g' = issued g @
           (case openGates g macAddress of
              Some existingTimer \<Rightarrow> []
            | None \<Rightarrow>
                authCmd macAddress #
                (case bandwidthLimits tier of
                   None \<Rightarrow> []
                 | Some limit \<Rightarrow>
                     if limit = 0 then [filterDelCmd macAddress, classDelCmd macAddress]
                     else [classAddCmd macAddress limit, filterAddCmd macAddress]))"
  using assms
  by (auto simp: OpenGateUntil_def Let_def authorizeMAC_eq bandwidthCmds_def installTimer_def
        Stop_def split: if_splits option.splits)

lemma OpenGateUntil_bandwidth_commands_example:
  "OpenGateUntil sysOk 1000 deviceA 4600 ''free'' closedGates = (None, gatesA)
   \<and> issued gatesA = [authCmd deviceA, classAddCmd deviceA 2048, filterAddCmd deviceA]"
proof -
  have h: "OpenGateUntil sysOk 1000 deviceA 4600 ''free'' closedGates = (None, gatesA)"
    by (simp add: gatesA_def OpenGateUntil_def closedGates_def sysOk_def authorizeMAC_eq
          word_sle_eq)
  show ?thesis
    using h OpenGateUntil_bandwidth_commands [OF h]
    by (simp add: closedGates_def bandwidthLimits_def)
qed

text \<open>
  C1 at an input where the code breaks it. The device is open on the free tier, with its
  class and filter installed. A call for the premium tier, whose ceiling is 0, succeeds
  and issues no command: the limit of the free tier is not removed, where the no-entry
  branch applies the tier it is given.
\<close>

theorem OpenGateUntil_extension_drops_tier:
  "openGates gatesA deviceA = Some (Some 0)
   \<and> bandwidthLimits ''premium'' = Some 0
   \<and> fst (OpenGateUntil sysOk 2000 deviceA 9000 ''premium'' gatesA) = None
   \<and> issued (snd (OpenGateUntil sysOk 2000 deviceA 9000 ''premium'' gatesA))
       = [authCmd deviceA, classAddCmd deviceA 2048, filterAddCmd deviceA]"
  by (simp add: gatesA_eq OpenGateUntil_def bandwidthLimits_def installTimer_def Stop_def
        word_sle_eq)

text \<open>
  The deadline check. When \<open>untilTimestamp \<le> now\<close> and the difference
  \<open>untilTimestamp - now\<close> fits an \<open>int64\<close>, \<open>OpenGateUntil\<close> returns the past-deadline
  error and leaves the gates as they were: no entry, no timer, no command.
\<close>

lemma OpenGateUntil_past_deadline:
  assumes "sint untilTimestamp \<le> sint now"
    and "- (2 ^ 63) \<le> sint untilTimestamp - sint now"
  shows "OpenGateUntil sys now macAddress untilTimestamp tier g
           = (Some (pastError untilTimestamp now), g)"
proof -
  have "sint (untilTimestamp - now) = signed_take_bit 63 (sint untilTimestamp - sint now)"
    by (simp add: sint_word_diff)
  also have "\<dots> = sint untilTimestamp - sint now"
    using assms by (intro signed_take_bit_int_eq_self) simp_all
  finally have "untilTimestamp - now \<le>s 0"
    using assms by (simp add: word_sle_eq)
  then show ?thesis by (simp add: OpenGateUntil_def)
qed

text \<open>
  C4 at the input where the code breaks it. The check is made on the \<open>int64\<close> difference
  \<open>untilTimestamp - now\<close>, which wraps around: for the timestamp \<open>-2^63\<close> at time
  1700000000 the difference is positive, so although the timestamp is in the past the
  call succeeds, runs \<open>ndsctl auth\<close> and the two \<open>tc\<close> commands, creates the gate entry
  and installs a timer.
\<close>

theorem OpenGateUntil_far_past_deadline:
  "(- 9223372036854775808 :: int64) \<le>s 1700000000
   \<and> fst (OpenGateUntil sysOk 1700000000 deviceA (- 9223372036854775808) ''free'' closedGates)
       = None
   \<and> issued (snd (OpenGateUntil sysOk 1700000000 deviceA (- 9223372036854775808) ''free''
                    closedGates))
       = [authCmd deviceA, classAddCmd deviceA 2048, filterAddCmd deviceA]
   \<and> openGates (snd (OpenGateUntil sysOk 1700000000 deviceA (- 9223372036854775808) ''free''
                       closedGates)) deviceA
       = Some (Some 0)
   \<and> timers (snd (OpenGateUntil sysOk 1700000000 deviceA (- 9223372036854775808) ''free''
                    closedGates)) 0
       \<noteq> None"
  by (simp add: OpenGateUntil_def closedGates_def sysOk_def authorizeMAC_eq
        bandwidthCmds_def bandwidthLimits_def installTimer_def word_sle_eq)

text \<open>
  C8, as the code has it. When a pending timer of a device fires, the callback always
  issues \<open>ndsctl deauth\<close> and always removes the device's gate entry; the two
  bandwidth-limit deletions are issued after the deauthorization exactly when the
  deauthorization succeeded, and not at all when it failed.
\<close>

theorem fireTimer_effects:
  assumes "timers g t = Some (macAddress, duration)"
  shows "openGates (fireTimer sys t g) macAddress = None
    \<and> timers (fireTimer sys t g) t = None
    \<and> issued (fireTimer sys t g) = issued g @ deauthCmd macAddress #
         (if sys (issued g) (deauthCmd macAddress) = None
          then [filterDelCmd macAddress, classDelCmd macAddress] else [])"
  using assms
  by (auto simp: fireTimer_def deauthorizeMAC_eq split: option.splits)

theorem fireTimer_effects_witness:
  "timers gatesA 0 = Some (deviceA, 3600000000000)
   \<and> openGates (fireTimer sysOk 0 gatesA) deviceA = None
   \<and> timers (fireTimer sysOk 0 gatesA) 0 = None
   \<and> issued (fireTimer sysOk 0 gatesA)
       = [authCmd deviceA, classAddCmd deviceA 2048, filterAddCmd deviceA,
          deauthCmd deviceA, filterDelCmd deviceA, classDelCmd deviceA]"
proof -
  have h: "timers gatesA 0 = Some (deviceA, 3600000000000)"
    by (simp add: gatesA_eq)
  show ?thesis
    using h fireTimer_effects [OF h, of sysOk]
    by (simp add: gatesA_eq sysOk_def)
qed

text \<open>
  C8 fails as stated when \<open>ndsctl deauth\<close> fails: the timer of the device fires, the
  entry is removed, and the only command issued by the callback is the deauthorization;
  neither bandwidth-limit deletion is run.
\<close>

theorem fireTimer_deauth_failure_counterexample:
  "timers gatesA 0 = Some (deviceA, 3600000000000)
   \<and> openGates (fireTimer sysNoDeauth 0 gatesA) deviceA = None
   \<and> issued (fireTimer sysNoDeauth 0 gatesA)
       = [authCmd deviceA, classAddCmd deviceA 2048, filterAddCmd deviceA, deauthCmd deviceA]
   \<and> filterDelCmd deviceA \<notin> set (issued (fireTimer sysNoDeauth 0 gatesA))
   \<and> classDelCmd deviceA \<notin> set (issued (fireTimer sysNoDeauth 0 gatesA))"
  by (simp add: gatesA_eq fireTimer_def deauthorizeMAC_eq sysNoDeauth_def
        authCmd_def classAddCmd_def filterAddCmd_def deauthCmd_def filterDelCmd_def
        classDelCmd_def)

section \<open>The payout tick\<close>

text \<open>
  C7, as the code has it. On a tick whose balance reaches \<open>MinPayoutAmount\<close> and with an
  identities configuration present, let \<open>aimed = balance - MinBalance\<close> (\<open>uint64\<close>). For
  each profit share in order, with \<open>shareAmount = uint64(math.Round(float64(aimed) *
  Factor))\<close>: a share whose identity does not resolve logs a warning and is skipped, the
  others are still processed; every other share attempts one payout of \<open>shareAmount\<close>
  whose maximum cost is \<open>shareAmount + (shareAmount + shareAmount * tolerancePercent /
  100)\<close>. The ceiling counts the share amount twice; it is computed from the share
  amount, not from \<open>aimed\<close>.
\<close>

theorem processPayout_shares:
  assumes "\<not> GetBalanceByMint env (URL mintConfig) < MinPayoutAmount mintConfig"
    and "payoutIdentities env = Some identities"
  shows "filter isMelt (processPayout env mintConfig)
     = concat (map (\<lambda>profitShare.
         let aimed = GetBalanceByMint env (URL mintConfig) - MinBalance mintConfig;
             shareAmount = roundShare env aimed (Factor profitShare)
         in case GetPublicIdentity identities (Identity profitShare) of
              Inl err \<Rightarrow> []
            | Inr lightningAddress \<Rightarrow>
                [Melt (URL mintConfig) shareAmount
                   (shareAmount
                    + (shareAmount + shareAmount * BalanceTolerancePercent mintConfig div 100))
                   lightningAddress]) (ProfitShare env))
   \<and> filter isWarning (processPayout env mintConfig)
     = concat (map (\<lambda>profitShare.
         case GetPublicIdentity identities (Identity profitShare) of
           Inl err \<Rightarrow>
             [Log (''Warning: Could not find public identity for profit share: '' @ err)]
         | Inr lightningAddress \<Rightarrow> []) (ProfitShare env))"
  using assms
  by (simp add: processPayout_def Let_def payoutShares_melts payoutShares_warnings)

theorem processPayout_shares_witness:
  "\<not> GetBalanceByMint payoutEnvA (URL mintA) < MinPayoutAmount mintA
   \<and> payoutIdentities payoutEnvA = Some identitiesA
   \<and> filter isMelt (processPayout payoutEnvA mintA)
       = [Melt ''https://mint.example'' 50 105 ''owner@ln.example'']
   \<and> filter isWarning (processPayout payoutEnvA mintA)
       = [Log ''Warning: Could not find public identity for profit share: public identity not found'']"
proof -
  have b: "\<not> GetBalanceByMint payoutEnvA (URL mintA) < MinPayoutAmount mintA"
    by (simp add: payoutEnvA_def mintA_def)
  have i: "payoutIdentities payoutEnvA = Some identitiesA"
    by (simp add: payoutEnvA_def)
  show ?thesis
    using b i processPayout_shares [OF b i]
    by (simp add: payoutEnvA_def mintA_def identitiesA_def exactShare_half)
qed

text \<open>
  The ceiling of C7 fails as stated: with balance 100, minimum balance 0, tolerance 10
  percent and a share of one half, \<open>aimed\<close> is 100 and the payout of 50 has the maximum
  cost 105, where the formula over \<open>aimed\<close> gives 210.
\<close>

theorem processPayout_ceiling_counterexample:
  "GetBalanceByMint payoutEnvA (URL mintA) - MinBalance mintA = 100
   \<and> BalanceTolerancePercent mintA = 10
   \<and> filter isMelt (processPayout payoutEnvA mintA)
       = [Melt ''https://mint.example'' 50 105 ''owner@ln.example'']
   \<and> (100 + (100 + 100 * 10 div 100) :: uint64) = 210"
  by (simp add: processPayout_def payoutEnvA_def mintA_def identitiesA_def exactShare_half
        PayoutShare_def Let_def)

section \<open>The purchase pipeline\<close>

text \<open>
  C5, as the code has it. \<open>PurchaseSession\<close> stops at the first stage that fails: a
  missing payment token, a missing device identifier, an invalid MAC address, a
  malformed token, a failed redemption (already spent, or any other), an allotment
  computation that returns an error, a failed gate opening. Its reply is then a signed
  notice carrying the severity \<open>error\<close>, the code of that stage, a message and, when the
  payer's key is not empty, the payer's key; or, when the notice itself cannot be created
  (no identities, no merchant key, or the signing fails), no event and an error. No later
  stage has run: up to the allotment stage the session store and the gates (entries,
  timers, commands issued) are returned exactly as they were given; when the gate opening
  fails, the store holds the merged session, and the gates are as \<open>OpenGateUntil\<close> left
  them, with the entries and timers they had before. A session reply (kind 1022) is
  returned only when every stage succeeded.
\<close>

theorem PurchaseSession_failure_replies:
  fixes ext :: "'tok Collaborators"
  shows
  "(extractPaymentToken (Tags ev) = Inl e1 \<longrightarrow>
      failureReply ext clock ev ''invalid-payment-token''
        (fst (PurchaseSession ext sys clock config amount ev st g))
      \<and> snd (PurchaseSession ext sys clock config amount ev st g) = (st, g))
   \<and> (extractPaymentToken (Tags ev) = Inr tok
        \<and> extractDeviceIdentifier (Tags ev) = Inl e2 \<longrightarrow>
      failureReply ext clock ev ''invalid-device-identifier''
        (fst (PurchaseSession ext sys clock config amount ev st g))
      \<and> snd (PurchaseSession ext sys clock config amount ev st g) = (st, g))
   \<and> (extractPaymentToken (Tags ev) = Inr tok
        \<and> extractDeviceIdentifier (Tags ev) = Inr dev
        \<and> \<not> ValidateMACAddress ext dev \<longrightarrow>
      failureReply ext clock ev ''invalid-mac-address''
        (fst (PurchaseSession ext sys clock config amount ev st g))
      \<and> snd (PurchaseSession ext sys clock config amount ev st g) = (st, g))
   \<and> (extractPaymentToken (Tags ev) = Inr tok
        \<and> extractDeviceIdentifier (Tags ev) = Inr dev
        \<and> ValidateMACAddress ext dev
        \<and> DecodeToken ext tok = Inl e4 \<longrightarrow>
      failureReply ext clock ev ''payment-error-invalid-token''
        (fst (PurchaseSession ext sys clock config amount ev st g))
      \<and> snd (PurchaseSession ext sys clock config amount ev st g) = (st, g))
   \<and> (extractPaymentToken (Tags ev) = Inr tok
        \<and> extractDeviceIdentifier (Tags ev) = Inr dev
        \<and> ValidateMACAddress ext dev
        \<and> DecodeToken ext tok = Inr ct
        \<and> Receive ext ct = Inl e5 \<longrightarrow>
      failureReply ext clock ev
        (if Contains e5 ''Token already spent'' then ''payment-error-token-spent''
         else ''payment-processing-failed'')
        (fst (PurchaseSession ext sys clock config amount ev st g))
      \<and> snd (PurchaseSession ext sys clock config amount ev st g) = (st, g))
   \<and> (extractPaymentToken (Tags ev) = Inr tok
        \<and> extractDeviceIdentifier (Tags ev) = Inr dev
        \<and> ValidateMACAddress ext dev
        \<and> DecodeToken ext tok = Inr ct
        \<and> Receive ext ct = Inr amountAfterSwap
        \<and> calculateAllotment config amountAfterSwap (Mint ext ct) = Inl (Error e6) \<longrightarrow>
      failureReply ext clock ev ''allotment-calculation-failed''
        (fst (PurchaseSession ext sys clock config amount ev st g))
      \<and> snd (PurchaseSession ext sys clock config amount ev st g) = (st, g))
   \<and> (extractPaymentToken (Tags ev) = Inr tok
        \<and> extractDeviceIdentifier (Tags ev) = Inr dev
        \<and> ValidateMACAddress ext dev
        \<and> DecodeToken ext tok = Inr ct
        \<and> Receive ext ct = Inr amountAfterSwap
        \<and> calculateAllotment config amountAfterSwap (Mint ext ct) = Inr allotment
        \<and> AddAllotment (nowAddAllotment clock) dev ''milliseconds'' allotment st
            = ((Some session, None), st1)
        \<and> OpenGateUntil sys (nowOpenGate clock) dev
              (endTimestamp clock (sessionHeap st1 session)) (determineTier amount) g
            = (Some (Error e10), g1) \<longrightarrow>
      failureReply ext clock ev ''gate-opening-failed''
        (fst (PurchaseSession ext sys clock config amount ev st g))
      \<and> snd (PurchaseSession ext sys clock config amount ev st g) = (st1, g1)
      \<and> openGates g1 = openGates g \<and> timers g1 = timers g)
   \<and> (fst (PurchaseSession ext sys clock config amount ev st g) = Inr reply
        \<and> Kind reply = 1022 \<longrightarrow>
      (\<exists>tok dev ct amountAfterSwap allotment session st1 g1.
          extractPaymentToken (Tags ev) = Inr tok
        \<and> extractDeviceIdentifier (Tags ev) = Inr dev
        \<and> ValidateMACAddress ext dev
        \<and> DecodeToken ext tok = Inr ct
        \<and> Receive ext ct = Inr amountAfterSwap
        \<and> calculateAllotment config amountAfterSwap (Mint ext ct) = Inr allotment
        \<and> AddAllotment (nowAddAllotment clock) dev ''milliseconds'' allotment st
            = ((Some session, None), st1)
        \<and> OpenGateUntil sys (nowOpenGate clock) dev
              (endTimestamp clock (sessionHeap st1 session)) (determineTier amount) g
            = (None, g1)))"
proof -
  let ?p = "PurchaseSession ext sys clock config amount ev st g"
  let ?r = "fst ?p"
  have s1: "failureReply ext clock ev ''invalid-payment-token'' ?r \<and> snd ?p = (st, g)"
    if "extractPaymentToken (Tags ev) = Inl e1"
    using that by (simp add: PurchaseSession_def noticeReply_failureReply)
  have s2: "failureReply ext clock ev ''invalid-device-identifier'' ?r \<and> snd ?p = (st, g)"
    if "extractPaymentToken (Tags ev) = Inr tok" "extractDeviceIdentifier (Tags ev) = Inl e2"
    using that by (simp add: PurchaseSession_def noticeReply_failureReply)
  have s3: "failureReply ext clock ev ''invalid-mac-address'' ?r \<and> snd ?p = (st, g)"
    if "extractPaymentToken (Tags ev) = Inr tok" "extractDeviceIdentifier (Tags ev) = Inr dev"
      "\<not> ValidateMACAddress ext dev"
    using that by (simp add: PurchaseSession_def noticeReply_failureReply)
  have s4: "failureReply ext clock ev ''payment-error-invalid-token'' ?r \<and> snd ?p = (st, g)"
    if "extractPaymentToken (Tags ev) = Inr tok" "extractDeviceIdentifier (Tags ev) = Inr dev"
      "ValidateMACAddress ext dev" "DecodeToken ext tok = Inl e4"
    using that by (simp add: PurchaseSession_def noticeReply_failureReply)
  have s5: "failureReply ext clock ev
        (if Contains e5 ''Token already spent'' then ''payment-error-token-spent''
         else ''payment-processing-failed'') ?r \<and> snd ?p = (st, g)"
    if "extractPaymentToken (Tags ev) = Inr tok" "extractDeviceIdentifier (Tags ev) = Inr dev"
      "ValidateMACAddress ext dev" "DecodeToken ext tok = Inr ct" "Receive ext ct = Inl e5"
    using that by (simp add: PurchaseSession_def noticeReply_failureReply Let_def)
  have s6: "failureReply ext clock ev ''allotment-calculation-failed'' ?r \<and> snd ?p = (st, g)"
    if "extractPaymentToken (Tags ev) = Inr tok" "extractDeviceIdentifier (Tags ev) = Inr dev"
      "ValidateMACAddress ext dev" "DecodeToken ext tok = Inr ct"
      "Receive ext ct = Inr amountAfterSwap"
      "calculateAllotment config amountAfterSwap (Mint ext ct) = Inl (Error e6)"
    using that by (simp add: PurchaseSession_def noticeReply_failureReply)
  have s10: "failureReply ext clock ev ''gate-opening-failed'' ?r \<and> snd ?p = (st1, g1)
      \<and> openGates g1 = openGates g \<and> timers g1 = timers g"
    if "extractPaymentToken (Tags ev) = Inr tok" "extractDeviceIdentifier (Tags ev) = Inr dev"
      "ValidateMACAddress ext dev" "DecodeToken ext tok = Inr ct"
      "Receive ext ct = Inr amountAfterSwap"
      "calculateAllotment config amountAfterSwap (Mint ext ct) = Inr allotment"
      "AddAllotment (nowAddAllotment clock) dev ''milliseconds'' allotment st
         = ((Some session, None), st1)"
      "OpenGateUntil sys (nowOpenGate clock) dev
         (endTimestamp clock (sessionHeap st1 session)) (determineTier amount) g
         = (Some (Error e10), g1)"
    using that OpenGateUntil_error_frame [OF that(8)]
    by (simp add: PurchaseSession_def noticeReply_failureReply Let_def)
  have s11: "\<exists>tok dev ct amountAfterSwap allotment session st1 g1.
          extractPaymentToken (Tags ev) = Inr tok
        \<and> extractDeviceIdentifier (Tags ev) = Inr dev
        \<and> ValidateMACAddress ext dev
        \<and> DecodeToken ext tok = Inr ct
        \<and> Receive ext ct = Inr amountAfterSwap
        \<and> calculateAllotment config amountAfterSwap (Mint ext ct) = Inr allotment
        \<and> AddAllotment (nowAddAllotment clock) dev ''milliseconds'' allotment st
            = ((Some session, None), st1)
        \<and> OpenGateUntil sys (nowOpenGate clock) dev
              (endTimestamp clock (sessionHeap st1 session)) (determineTier amount) g
            = (None, g1)"
    if r: "?r = Inr reply" and k: "Kind reply = 1022"
  proof -
    obtain tok where t: "extractPaymentToken (Tags ev) = Inr tok"
      using r k by (cases "extractPaymentToken (Tags ev)")
        (auto simp: PurchaseSession_def dest: noticeReply_Kind)
    obtain dev where d: "extractDeviceIdentifier (Tags ev) = Inr dev"
      using r k t by (cases "extractDeviceIdentifier (Tags ev)")
        (auto simp: PurchaseSession_def dest: noticeReply_Kind)
    have v: "ValidateMACAddress ext dev"
      using r k t d by (cases "ValidateMACAddress ext dev")
        (auto simp: PurchaseSession_def dest: noticeReply_Kind)
    obtain ct where c: "DecodeToken ext tok = Inr ct"
      using r k t d v by (cases "DecodeToken ext tok")
        (auto simp: PurchaseSession_def dest: noticeReply_Kind)
    obtain a where a: "Receive ext ct = Inr a"
      using r k t d v c by (cases "Receive ext ct")
        (auto simp: PurchaseSession_def Let_def dest: noticeReply_Kind)
    obtain al where al: "calculateAllotment config a (Mint ext ct) = Inr al"
      using r k t d v c a by (cases "calculateAllotment config a (Mint ext ct)")
        (auto simp: PurchaseSession_def dest: noticeReply_Kind split: failure.splits)
    obtain p st1 where ad:
      "AddAllotment (nowAddAllotment clock) dev ''milliseconds'' al st = ((Some p, None), st1)"
      using AddAllotment_result by blast
    obtain res g1 where og: "OpenGateUntil sys (nowOpenGate clock) dev
              (endTimestamp clock (sessionHeap st1 p)) (determineTier amount) g = (res, g1)"
      by (cases "OpenGateUntil sys (nowOpenGate clock) dev
              (endTimestamp clock (sessionHeap st1 p)) (determineTier amount) g") 
    have "res = None"
      using r k t d v c a al ad og
      by (auto simp: PurchaseSession_def Let_def dest: noticeReply_Kind
            split: option.splits failure.splits)
    with t d v c a al ad og show ?thesis by blast
  qed
  show ?thesis
    using s1 s2 s3 s4 s5 s6 s10 s11 by blast
qed

theorem PurchaseSession_failure_replies_witness:
  "extractPaymentToken (Tags paymentA) = Inr ''cashuAtoken''
   \<and> extractDeviceIdentifier (Tags paymentA) = Inr deviceA
   \<and> ValidateMACAddress extA deviceA
   \<and> DecodeToken extA ''cashuAtoken'' = Inr ''cashuAtoken''
   \<and> Receive extA ''cashuAtoken'' = Inr 10
   \<and> calculateAllotment configA 10 (Mint extA ''cashuAtoken'') = Inr 3600000
   \<and> AddAllotment (nowAddAllotment clockA) deviceA ''milliseconds'' 3600000 emptyStore
       = ((Some 0, None), storeA)
   \<and> OpenGateUntil sysNoAuth (nowOpenGate clockA) deviceA
         (endTimestamp clockA (sessionHeap storeA 0)) (determineTier 10) closedGates
       = (Some (Error ''error authorizing MAC: exit status 1''),
          closedGates\<lparr>issued := [authCmd deviceA]\<rparr>)
   \<and> failureReply extA clockA paymentA ''gate-opening-failed''
        (fst (PurchaseSession extA sysNoAuth clockA configA 10 paymentA emptyStore closedGates))
   \<and> fst (PurchaseSession extA sysNoAuth clockA configA 10 paymentA emptyStore closedGates)
       = Inr \<lparr>ID = ''event-id'', PubKey = ''merchant-pubkey'', CreatedAt = 1000, Kind = 21023,
              Tags = [[''level'', ''error''], [''code'', ''gate-opening-failed''],
                      [''p'', ''payer-pubkey'']],
              Content = ''Failed to open gate for session: error authorizing MAC: exit status 1'',
              Sig = ''event-sig''\<rparr>
   \<and> snd (PurchaseSession extA sysNoAuth clockA configA 10 paymentA emptyStore closedGates)
       = (storeA, closedGates\<lparr>issued := [authCmd deviceA]\<rparr>)
   \<and> extractPaymentToken (Tags emptyPayment) = Inl ''no payment tag found in event''
   \<and> failureReply extA clockA emptyPayment ''invalid-payment-token''
        (fst (PurchaseSession extA sysNoAuth clockA configA 10 emptyPayment emptyStore
                closedGates))
   \<and> snd (PurchaseSession extA sysNoAuth clockA configA 10 emptyPayment emptyStore closedGates)
       = (emptyStore, closedGates)"
proof -
  have h1: "extractPaymentToken (Tags paymentA) = Inr ''cashuAtoken''"
    by (simp add: paymentA_def)
  have h2: "extractDeviceIdentifier (Tags paymentA) = Inr deviceA"
    by (simp add: paymentA_def)
  have h3: "ValidateMACAddress extA deviceA"
    by (simp add: extA_def)
  have h4: "DecodeToken extA ''cashuAtoken'' = Inr ''cashuAtoken''"
    by (simp add: extA_def)
  have h5: "Receive extA ''cashuAtoken'' = Inr 10"
    by (simp add: extA_def)
  have h6: "calculateAllotment configA 10 (Mint extA ''cashuAtoken'') = Inr 3600000"
    by (simp add: extA_def allotmentA)
  have h7: "AddAllotment (nowAddAllotment clockA) deviceA ''milliseconds'' 3600000 emptyStore
              = ((Some 0, None), storeA)"
    by (simp add: clockA_def storeA_eq)
  have h8: "OpenGateUntil sysNoAuth (nowOpenGate clockA) deviceA
              (endTimestamp clockA (sessionHeap storeA 0)) (determineTier 10) closedGates
            = (Some (Error ''error authorizing MAC: exit status 1''),
               closedGates\<lparr>issued := [authCmd deviceA]\<rparr>)"
    by (simp add: clockA_def endA gateA_fails)
  have e1: "extractPaymentToken (Tags emptyPayment) = Inl ''no payment tag found in event''"
    by (simp add: emptyPayment_def)
  have gate: "failureReply extA clockA paymentA ''gate-opening-failed''
        (fst (PurchaseSession extA sysNoAuth clockA configA 10 paymentA emptyStore closedGates))
      \<and> snd (PurchaseSession extA sysNoAuth clockA configA 10 paymentA emptyStore closedGates)
          = (storeA, closedGates\<lparr>issued := [authCmd deviceA]\<rparr>)"
    using PurchaseSession_failure_replies
            [where ext = extA and clock = clockA and ev = paymentA and sys = sysNoAuth
               and config = configA and amount = 10 and st = emptyStore and g = closedGates
               and tok = "''cashuAtoken''" and dev = deviceA and ct = "''cashuAtoken''"
               and amountAfterSwap = 10 and allotment = 3600000 and session = 0
               and ?st1.0 = storeA and ?e10.0 = "''error authorizing MAC: exit status 1''"
               and ?g1.0 = "closedGates\<lparr>issued := [authCmd deviceA]\<rparr>"]
          h1 h2 h3 h4 h5 h6 h7 h8
    by blast
  have token: "failureReply extA clockA emptyPayment ''invalid-payment-token''
        (fst (PurchaseSession extA sysNoAuth clockA configA 10 emptyPayment emptyStore
                closedGates))
      \<and> snd (PurchaseSession extA sysNoAuth clockA configA 10 emptyPayment emptyStore
                closedGates)
          = (emptyStore, closedGates)"
    using PurchaseSession_failure_replies
            [where ext = extA and clock = clockA and ev = emptyPayment and sys = sysNoAuth
               and config = configA and amount = 10 and st = emptyStore and g = closedGates
               and ?e1.0 = "''no payment tag found in event''"]
          e1
    by blast
  have reply: "fst (PurchaseSession extA sysNoAuth clockA configA 10 paymentA emptyStore
                      closedGates)
       = Inr \<lparr>ID = ''event-id'', PubKey = ''merchant-pubkey'', CreatedAt = 1000, Kind = 21023,
              Tags = [[''level'', ''error''], [''code'', ''gate-opening-failed''],
                      [''p'', ''payer-pubkey'']],
              Content = ''Failed to open gate for session: error authorizing MAC: exit status 1'',
              Sig = ''event-sig''\<rparr>"
    by (simp add: PurchaseSession_def paymentA_def extA_def clockA_def allotmentA storeA_eq
          endA gateA_fails noticeReply_def CreateNoticeEvent_def identitiesA_def signed_def
          Let_def)
  show ?thesis
    using h1 h2 h3 h4 h5 h6 h7 h8 e1 gate token reply by simp
qed

text \<open>
  C5 fails as stated when the notice cannot be signed: the payment carries no payment
  token and the signer fails, and the reply is no event and an error, not a notice.
\<close>

theorem PurchaseSession_unsigned_notice_counterexample:
  "extractPaymentToken (Tags emptyPayment) = Inl ''no payment tag found in event''
   \<and> fst (PurchaseSession extNoSign sysOk clockA configA 10 emptyPayment emptyStore closedGates)
       = Inl (Error ''failed to extract payment token and failed to create notice: failed to sign notice event: signing failed'')"
  by (simp add: PurchaseSession_def emptyPayment_def paymentA_def extNoSign_def extA_def
        clockA_def noticeReply_def CreateNoticeEvent_def identitiesA_def Let_def)

text \<open>
  C6 at inputs where the code breaks it. The tier is \<open>determineTier(amount)\<close> for an
  identifier \<open>amount\<close> that \<open>PurchaseSession\<close> does not declare; the amount redeemed is
  \<open>amountAfterSwap\<close>, and it does not reach \<open>determineTier\<close>. Whatever \<open>amount\<close> holds,
  a payment that redeems 5 sats (tier \<open>free\<close>) and a payment that redeems 10 sats (tier
  \<open>premium\<close>), each on a fresh store with closed gates, both succeed with a session
  reply and both open the gate with the same bandwidth commands, those of
  \<open>determineTier(amount)\<close>, although the two tiers have different commands.
\<close>

theorem PurchaseSession_tier_ignores_redeemed_amount:
  "Receive (extPays 5) ''cashuAtoken'' = Inr 5
   \<and> Receive (extPays 10) ''cashuAtoken'' = Inr 10
   \<and> determineTier 5 = ''free''
   \<and> determineTier 10 = ''premium''
   \<and> bandwidthCmds deviceA ''free'' \<noteq> bandwidthCmds deviceA ''premium''
   \<and> map_sum (\<lambda>f. f) Kind
        (fst (PurchaseSession (extPays 5) sysOk clockA configB amount paymentA emptyStore
                closedGates))
       = Inr 1022
   \<and> map_sum (\<lambda>f. f) Kind
        (fst (PurchaseSession (extPays 10) sysOk clockA configB amount paymentA emptyStore
                closedGates))
       = Inr 1022
   \<and> issued (snd (snd (PurchaseSession (extPays 5) sysOk clockA configB amount paymentA
                         emptyStore closedGates)))
       = authCmd deviceA # bandwidthCmds deviceA (determineTier amount)
   \<and> issued (snd (snd (PurchaseSession (extPays 10) sysOk clockA configB amount paymentA
                         emptyStore closedGates)))
       = authCmd deviceA # bandwidthCmds deviceA (determineTier amount)"
proof -
  have a5: "calculateAllotment configB 5 ''https://mint.example'' = Inr 18000000"
    by (simp add: calculateAllotment_def calculateAllotmentMs_def configB_def mintB_def)
  have a10: "calculateAllotment configB 10 ''https://mint.example'' = Inr 36000000"
    by (simp add: calculateAllotment_def calculateAllotmentMs_def configB_def mintB_def)
  have add: "AddAllotment 1000 deviceA ''milliseconds'' n emptyStore
      = ((Some 0, None),
         emptyStore\<lparr>customerSessions := [deviceA \<mapsto> 0],
           sessionHeap := (sessionHeap emptyStore)
             (0 := \<lparr>MacAddress = deviceA, StartTime = 1000, Metric = ''milliseconds'',
                    Allotment = n\<rparr>),
           nextSession := Suc 0\<rparr>)" for n
    by (simp add: AddAllotment_def emptyStore_def)
  have g5: "OpenGateUntil sysOk 1000 deviceA 19000 tier closedGates
           = (None,
              \<lparr>openGates = [deviceA \<mapsto> Some 0],
               timers = [0 \<mapsto> (deviceA, (19000 - 1000) * 1000000000)],
               nextTimer = 1,
               issued = authCmd deviceA # bandwidthCmds deviceA tier\<rparr>)" for tier
    by (rule OpenGateUntil_fresh) (simp add: word_sle_eq)
  have g10: "OpenGateUntil sysOk 1000 deviceA 37000 tier closedGates
           = (None,
              \<lparr>openGates = [deviceA \<mapsto> Some 0],
               timers = [0 \<mapsto> (deviceA, (37000 - 1000) * 1000000000)],
               nextTimer = 1,
               issued = authCmd deviceA # bandwidthCmds deviceA tier\<rparr>)" for tier
    by (rule OpenGateUntil_fresh) (simp add: word_sle_eq)
  have cmds: "bandwidthCmds deviceA ''free'' \<noteq> bandwidthCmds deviceA ''premium''"
    by (simp add: bandwidthCmds_def bandwidthLimits_def classAddCmd_def filterDelCmd_def)
  have tiers: "determineTier 5 = ''free''" "determineTier 10 = ''premium''"
    by (simp_all add: determineTier_def)
  have r5: "map_sum (\<lambda>f. f) Kind
        (fst (PurchaseSession (extPays 5) sysOk clockA configB amount paymentA emptyStore
                closedGates)) = Inr 1022"
    and i5: "issued (snd (snd (PurchaseSession (extPays 5) sysOk clockA configB amount paymentA
                         emptyStore closedGates)))
       = authCmd deviceA # bandwidthCmds deviceA (determineTier amount)"
    by (simp_all add: PurchaseSession_def paymentA_def extPays_def extA_def clockA_def a5 add
          endTimestamp_def g5 createSessionEvent_def identitiesA_def signed_def Let_def)
  have r10: "map_sum (\<lambda>f. f) Kind
        (fst (PurchaseSession (extPays 10) sysOk clockA configB amount paymentA emptyStore
                closedGates)) = Inr 1022"
    and i10: "issued (snd (snd (PurchaseSession (extPays 10) sysOk clockA configB amount paymentA
                         emptyStore closedGates)))
       = authCmd deviceA # bandwidthCmds deviceA (determineTier amount)"
    by (simp_all add: PurchaseSession_def paymentA_def extPays_def extA_def clockA_def a10 add
          endTimestamp_def g10 createSessionEvent_def identitiesA_def signed_def Let_def)
  show ?thesis
    using cmds tiers r5 i5 r10 i10 by (simp add: extPays_def extA_def)
qed

end
